theory Spec2Isabelle
  imports Main
begin

section \<open>Data model of the session service (src/index.js)\<close>

text \<open>
  The service keeps two in-memory maps (\<open>sessions\<close>, \<open>activeByPhone\<close>), one credential
  directory per session on disk, one protocol socket per session and, optionally, one
  server-push stream per session. Session records are JavaScript objects: the registry
  stores a reference, and the fields are mutated in place. The model therefore has a
  store of objects (\<open>heap\<close>) and a registry from session id to reference.

  Everything awaited from outside the file (file-system calls, the protocol client,
  QR rendering) returns an outcome that the caller of a model function supplies.
\<close>

type_synonym sid = string
type_synonym phone_no = string
type_synonym path = string
type_synonym js_error = string
type_synonym ref = nat
type_synonym sock = nat
type_synonym stream = nat
type_synonym timer = nat
type_synonym rid = nat
type_synonym bytes = "char list"

subsection \<open>The disk\<close>

text \<open>
  A directory entry as \<open>fsPromises.stat\<close> and \<open>fsPromises.readFile\<close> see it.
  \<open>RegFile None\<close> is a regular file whose content the process may not read,
  \<open>Dir None\<close> a directory it may not list, \<open>Dangling\<close> a link whose target is gone
  (\<open>stat\<close> fails on it), \<open>Special\<close> a socket, pipe or device.
  The disk maps the path of a credential directory to its node.
\<close>

datatype node =
    RegFile "bytes option"
  | Dir "(string \<times> node) list option"
  | Special
  | Dangling

type_synonym disk = "path \<Rightarrow> node option"

text \<open>
  \<open>fsPromises.rm(dir, {recursive: true, force: true})\<close> either succeeds (also when the
  path does not exist, because of \<open>force\<close>) or fails with an error after having removed
  none or some of the entries; \<open>RmFailed e keep\<close> names the entries still there.
\<close>

datatype rm_outcome = RmDone | RmFailed js_error "string list"

fun prune :: "string list \<Rightarrow> node \<Rightarrow> node" where
  "prune keep (Dir (Some es)) = Dir (Some (filter (\<lambda>e. fst e \<in> set keep) es))"
| "prune keep n = n"

fun fs_rm :: "rm_outcome \<Rightarrow> path \<Rightarrow> disk \<Rightarrow> (js_error + unit) \<times> disk" where
  "fs_rm RmDone dir d = (Inr (), d(dir := None))"
| "fs_rm (RmFailed e keep) dir d = (Inl e, d(dir := map_option (prune keep) (d dir)))"

text \<open>
  \<open>fsPromises.mkdir(dir, {recursive: true})\<close>: with \<open>recursive\<close> an existing directory is
  not an error and is left as it is.
\<close>

fun fs_mkdir :: "js_error option \<Rightarrow> path \<Rightarrow> disk \<Rightarrow> (js_error + unit) \<times> disk" where
  "fs_mkdir (Some e) dir d = (Inl e, d)"
| "fs_mkdir None dir d =
     (case d dir of None \<Rightarrow> (Inr (), d(dir \<mapsto> Dir (Some []))) | Some n \<Rightarrow> (Inr (), d))"

subsection \<open>Sessions, effects and the world\<close>

text \<open>
  A session object. Every field may be absent (\<open>undefined\<close>); \<open>{}\<close> is \<open>empty_session\<close>.
  \<open>idleTimer\<close> is the source's \<open>_idleTimer\<close>.
\<close>

record session =
  authDir :: "path option"
  socket :: "sock option"
  phone :: "phone_no option"
  sse :: "stream option"
  credsSaved :: bool
  idleTimer :: "timer option"

definition empty_session :: session where
  "empty_session = \<lparr>authDir = None, socket = None, phone = None, sse = None,
     credsSaved = False, idleTimer = None\<rparr>"

datatype payload =
    Status string
  | StatusError string string
  | Finished string
  | QrImage string
  | PairingCode string

datatype effect =
    SseWrite stream string payload
  | SseEnd stream
  | SockLogout sock
  | WsClose sock
  | WaSend sock string string

datatype level = Info | Warn | Err

datatype body =
    QrBody sid string
  | PairBody sid string
  | ErrorBody string

datatype reply = Reply nat body

record request =
  resSent :: bool
  sent :: "reply list"

record world =
  sessions :: "sid \<Rightarrow> ref option"
  heap :: "ref \<Rightarrow> session"
  nextRef :: ref
  activeByPhone :: "phone_no \<Rightarrow> sid option"
  disk :: disk
  removing :: "path list"
  timers :: "timer \<Rightarrow> sid option"
  nextTimer :: timer
  requests :: "rid \<Rightarrow> request"
  wire :: "effect list"
  logged :: "(level \<times> string) list"

text \<open>JavaScript truthiness of an optional string: absent and \<open>''\<close> are falsy.\<close>

fun truthy :: "string option \<Rightarrow> string option" where
  "truthy None = None"
| "truthy (Some s) = (if s = [] then None else Some s)"

definition emit :: "effect list \<Rightarrow> world \<Rightarrow> world" where
  "emit es w = w\<lparr>wire := wire w @ es\<rparr>"

definition logger :: "level \<Rightarrow> string \<Rightarrow> world \<Rightarrow> world" where
  "logger l m w = w\<lparr>logged := logged w @ [(l, m)]\<rparr>"

text \<open>\<open>sendSSE(res, event, data)\<close>: two writes on the stream, one event.\<close>

definition sendSSE :: "stream \<Rightarrow> string \<Rightarrow> payload \<Rightarrow> world \<Rightarrow> world" where
  "sendSSE res ev dat w = emit [SseWrite res ev dat] w"

section \<open>Directory Cleaner\<close>

text \<open>
  \<open>cleanupDir\<close> awaits \<open>rm\<close> inside \<open>try\<close>; the \<open>catch\<close> logs a warning. The result is
  what the returned promise settles with: \<open>Inl\<close> would be a rejection.
\<close>

definition cleanupDir :: "rm_outcome \<Rightarrow> path \<Rightarrow> world \<Rightarrow> (js_error + unit) \<times> world" where
  "cleanupDir out dir w =
     (case fs_rm out dir (disk w) of
        (Inr u, d) \<Rightarrow> (Inr (), w\<lparr>disk := d\<rparr>)
      | (Inl e, d) \<Rightarrow> (Inr (), logger Warn ''cleanup failed'' (w\<lparr>disk := d\<rparr>)))"

section \<open>Credential Serializer\<close>

subsection \<open>Reading the directory\<close>

fun fs_readdir :: "path \<Rightarrow> disk \<Rightarrow> js_error + string list" where
  "fs_readdir dir d =
     (case d dir of
        None \<Rightarrow> Inl ''ENOENT''
      | Some (Dir (Some es)) \<Rightarrow> Inr (map fst es)
      | Some (Dir None) \<Rightarrow> Inl ''EACCES''
      | Some n \<Rightarrow> Inl ''ENOTDIR'')"

text \<open>\<open>stat(path.join(dir, f))\<close> follows links and fails on a missing or dangling entry.\<close>

fun fs_stat :: "path \<Rightarrow> string \<Rightarrow> disk \<Rightarrow> js_error + node" where
  "fs_stat dir f d =
     (case d dir of
        Some (Dir (Some es)) \<Rightarrow>
          (case map_of es f of
             None \<Rightarrow> Inl ''ENOENT''
           | Some Dangling \<Rightarrow> Inl ''ENOENT''
           | Some n \<Rightarrow> Inr n)
      | Some (Dir None) \<Rightarrow> Inl ''EACCES''
      | Some n \<Rightarrow> Inl ''ENOTDIR''
      | None \<Rightarrow> Inl ''ENOENT'')"

fun isFile :: "node \<Rightarrow> bool" where
  "isFile (RegFile c) = True"
| "isFile n = False"

fun fs_readFile :: "path \<Rightarrow> string \<Rightarrow> disk \<Rightarrow> js_error + bytes" where
  "fs_readFile dir f d =
     (case fs_stat dir f d of
        Inl e \<Rightarrow> Inl e
      | Inr (RegFile (Some c)) \<Rightarrow> Inr c
      | Inr (RegFile None) \<Rightarrow> Inl ''EACCES''
      | Inr (Dir es) \<Rightarrow> Inl ''EISDIR''
      | Inr n \<Rightarrow> Inl ''EINVAL'')"

subsection \<open>Base64, as \<open>Buffer.toString('base64')\<close> produces it\<close>

definition b64chars :: string where
  "b64chars = ''ABCDEFGHIJKLMNOPQRSTUVWXYZabcdefghijklmnopqrstuvwxyz0123456789+/''"

definition b64 :: "nat \<Rightarrow> char" where
  "b64 n = b64chars ! (n mod 64)"

fun base64 :: "bytes \<Rightarrow> string" where
  "base64 [] = []"
| "base64 [a] =
     (let x = (of_char a :: nat)
      in [b64 (x div 4), b64 ((x mod 4) * 16), CHR ''='', CHR ''=''])"
| "base64 [a, b] =
     (let x = (of_char a :: nat); y = (of_char b :: nat)
      in [b64 (x div 4), b64 ((x mod 4) * 16 + y div 16), b64 ((y mod 16) * 4), CHR ''=''])"
| "base64 (a # b # c # rest) =
     (let x = (of_char a :: nat); y = (of_char b :: nat); z = (of_char c :: nat)
      in [b64 (x div 4), b64 ((x mod 4) * 16 + y div 16),
          b64 ((y mod 16) * 4 + z div 64), b64 (z mod 64)] @ base64 rest)"

subsection \<open>The object \<open>out\<close> and \<open>JSON.stringify\<close>\<close>

text \<open>
  A JavaScript object with string values: the own properties in insertion order.
  \<open>out[f] = v\<close> creates or overwrites the own property \<open>f\<close>, except for
  \<open>f = "__proto__"\<close>: that assignment reaches the inherited setter, which ignores a
  string, and no property is created.
\<close>

type_synonym obj = "(string \<times> string) list"

fun obj_put :: "string \<Rightarrow> string \<Rightarrow> obj \<Rightarrow> obj" where
  "obj_put k v [] = [(k, v)]"
| "obj_put k v (e # ob) = (if fst e = k then (k, v) # ob else e # obj_put k v ob)"

definition obj_set :: "string \<Rightarrow> string \<Rightarrow> obj \<Rightarrow> obj" where
  "obj_set k v ob = (if k = ''__proto__'' then ob else obj_put k v ob)"

text \<open>
  Property enumeration order: the keys that are array indices (canonical decimal
  numerals below \<open>2^32 - 1\<close>) in ascending numeric order first, then the other keys
  in insertion order.
\<close>

definition is_digit :: "char \<Rightarrow> bool" where
  "is_digit c = (48 \<le> (of_char c :: nat) \<and> (of_char c :: nat) \<le> 57)"

definition digits_val :: "string \<Rightarrow> nat" where
  "digits_val s = foldl (\<lambda>n c. 10 * n + ((of_char c :: nat) - 48)) 0 s"

definition array_index :: "string \<Rightarrow> nat option" where
  "array_index s =
     (if s \<noteq> [] \<and> list_all is_digit s \<and> (s = ''0'' \<or> hd s \<noteq> CHR ''0'')
         \<and> digits_val s < 4294967295
      then Some (digits_val s) else None)"

definition index_rank :: "string \<Rightarrow> nat" where
  "index_rank k = (case array_index k of None \<Rightarrow> 0 | Some n \<Rightarrow> n)"

definition own_keys :: "obj \<Rightarrow> string list" where
  "own_keys ob =
     (let ks = map fst ob
      in sort_key index_rank (filter (\<lambda>k. array_index k \<noteq> None) ks)
         @ filter (\<lambda>k. array_index k = None) ks)"

definition obj_get :: "obj \<Rightarrow> string \<Rightarrow> string" where
  "obj_get ob k = (case map_of ob k of None \<Rightarrow> [] | Some v \<Rightarrow> v)"

text \<open>
  The text is taken as the bytes \<open>Buffer.from(payload)\<close> yields: a name is its UTF-8
  byte string, and \<open>JSON.stringify\<close> escapes the quote, the backslash and the control
  characters below \<open>0x20\<close> and copies every other byte.
\<close>

definition dquote :: char where
  "dquote = CHR 0x22"

definition backslash :: char where
  "backslash = CHR 0x5C"

definition hexdigit :: "nat \<Rightarrow> char" where
  "hexdigit n = ''0123456789abcdef'' ! (n mod 16)"

definition json_escape :: "char \<Rightarrow> string" where
  "json_escape c =
     (if c = dquote then [backslash, dquote]
      else if c = backslash then [backslash, backslash]
      else if c = CHR 0x08 then [backslash, CHR ''b'']
      else if c = CHR 0x0C then [backslash, CHR ''f'']
      else if c = CHR 0x0A then [backslash, CHR ''n'']
      else if c = CHR 0x0D then [backslash, CHR ''r'']
      else if c = CHR 0x09 then [backslash, CHR ''t'']
      else if (of_char c :: nat) < 32
        then [backslash, CHR ''u'', CHR ''0'', CHR ''0'',
              hexdigit ((of_char c :: nat) div 16), hexdigit ((of_char c :: nat) mod 16)]
      else [c])"

definition json_quote :: "string \<Rightarrow> string" where
  "json_quote s = dquote # concat (map json_escape s) @ [dquote]"

fun commas :: "string list \<Rightarrow> string" where
  "commas [] = []"
| "commas [x] = x"
| "commas (x # y # zs) = x @ CHR '','' # commas (y # zs)"

definition json_member :: "obj \<Rightarrow> string \<Rightarrow> string" where
  "json_member ob k = json_quote k @ CHR '':'' # json_quote (obj_get ob k)"

text \<open>\<open>JSON.stringify({ files: filesObj })\<close>.\<close>

definition stringify_files :: "obj \<Rightarrow> string" where
  "stringify_files ob =
     CHR 0x7B # json_quote ''files'' @ CHR '':'' # CHR 0x7B
       # commas (map (json_member ob) (own_keys ob)) @ [CHR 0x7D, CHR 0x7D]"

text \<open>\<open>'SILA_' + Buffer.from(payload).toString('base64')\<close>.\<close>

definition makeToken :: "obj \<Rightarrow> string" where
  "makeToken filesObj = ''SILA_'' @ base64 (stringify_files filesObj)"

subsection \<open>\<open>serializeAuthDir\<close>\<close>

text \<open>
  The loop over the names \<open>readdir\<close> returned. It stops at the first \<open>stat\<close> or
  \<open>readFile\<close> that fails, with the error and the properties set so far.
\<close>

fun readFiles :: "path \<Rightarrow> disk \<Rightarrow> string list \<Rightarrow> obj \<Rightarrow> js_error option \<times> obj" where
  "readFiles dir d [] out = (None, out)"
| "readFiles dir d (f # files) out =
     (case fs_stat dir f d of
        Inl e \<Rightarrow> (Some e, out)
      | Inr st \<Rightarrow>
          if isFile st
          then (case fs_readFile dir f d of
                  Inl e \<Rightarrow> (Some e, out)
                | Inr buf \<Rightarrow> readFiles dir d files (obj_set f (base64 buf) out))
          else readFiles dir d files out)"

text \<open>
  The \<open>catch\<close> logs and falls through to \<open>return out\<close>. The result is what the promise
  settles with: \<open>Inl\<close> would be a rejection.
\<close>

definition serializeAuthDir :: "path \<Rightarrow> world \<Rightarrow> (js_error + obj) \<times> world" where
  "serializeAuthDir dir w =
     (case fs_readdir dir (disk w) of
        Inl e \<Rightarrow> (Inr [], logger Warn ''serializeAuthDir failed'' w)
      | Inr files \<Rightarrow>
          (case readFiles dir (disk w) files [] of
             (None, out) \<Rightarrow> (Inr out, w)
           | (Some e, out) \<Rightarrow> (Inr out, logger Warn ''serializeAuthDir failed'' w)))"

section \<open>Idle Watchdog\<close>

text \<open>
  \<open>startIdleTimer\<close> cancels the session's pending timer and arms a new one; the table
  \<open>timers\<close> holds the pending timeouts with the session id their callback closes over.
\<close>

definition startIdleTimer :: "sid \<Rightarrow> world \<Rightarrow> world" where
  "startIdleTimer sessionId w =
     (case sessions w sessionId of
        None \<Rightarrow> w
      | Some r \<Rightarrow>
          let cleared = (case idleTimer (heap w r) of
                           None \<Rightarrow> timers w
                         | Some t \<Rightarrow> (timers w)(t := None));
              t' = nextTimer w
          in w\<lparr>timers := cleared(t' \<mapsto> sessionId),
               nextTimer := Suc t',
               heap := (heap w)(r := (heap w r)\<lparr>idleTimer := Some t'\<rparr>),
               sessions := (sessions w)(sessionId \<mapsto> r)\<rparr>)"

definition dropPhone :: "phone_no option \<Rightarrow> sid \<Rightarrow> world \<Rightarrow> world" where
  "dropPhone ph sessionId w =
     (case truthy ph of
        None \<Rightarrow> w
      | Some p \<Rightarrow>
          if activeByPhone w p = Some sessionId
          then w\<lparr>activeByPhone := (activeByPhone w)(p := None)\<rparr>
          else w)"

text \<open>
  The timeout callback of \<open>startIdleTimer\<close>. It reads the four fields once, notifies
  and ends the stream, logs out and closes the socket, awaits \<open>cleanupDir\<close>, and then
  deletes the registry entry and the phone mapping.
\<close>

definition idleCallback :: "rm_outcome \<Rightarrow> sid \<Rightarrow> world \<Rightarrow> world" where
  "idleCallback out sessionId w =
     (case sessions w sessionId of
        None \<Rightarrow> w
      | Some r \<Rightarrow>
          let s = heap w r;
              w1 = logger Info ''session idle timeout, cleaning up'' w;
              w2 = (case sse s of
                      None \<Rightarrow> w1
                    | Some res \<Rightarrow>
                        emit [SseEnd res]
                          (sendSSE res ''finished'' (Finished ''timeout_cleanup'')
                            (sendSSE res ''status'' (Status ''idle_timeout'') w1)));
              w3 = (case socket s of
                      None \<Rightarrow> w2
                    | Some k \<Rightarrow> emit [SockLogout k, WsClose k] w2);
              w4 = (case truthy (authDir s) of
                      None \<Rightarrow> w3
                    | Some d \<Rightarrow> snd (cleanupDir out d w3));
              w5 = w4\<lparr>sessions := (sessions w4)(sessionId := None)\<rparr>
          in dropPhone (phone s) sessionId w5)"

definition timerFired :: "timer \<Rightarrow> rm_outcome \<Rightarrow> world \<Rightarrow> world" where
  "timerFired t out w =
     (case timers w t of
        None \<Rightarrow> w
      | Some sessionId \<Rightarrow> idleCallback out sessionId (w\<lparr>timers := (timers w)(t := None)\<rparr>))"

section \<open>Session Lifecycle Controller\<close>

text \<open>
  \<open>clearSession\<close> is synchronous. It calls \<open>cleanupDir\<close> without awaiting it: the
  removal is started and settles in a later task (\<open>rmSettled\<close>); until then the path
  is in \<open>removing\<close>.
\<close>

definition clearSession :: "sid \<Rightarrow> world \<Rightarrow> world" where
  "clearSession sessionId w =
     (case sessions w sessionId of
        None \<Rightarrow> w
      | Some r \<Rightarrow>
          let s = heap w r;
              w1 = (case idleTimer s of
                      None \<Rightarrow> w
                    | Some t \<Rightarrow> w\<lparr>timers := (timers w)(t := None)\<rparr>);
              w2 = (case socket s of
                      None \<Rightarrow> w1
                    | Some k \<Rightarrow> emit [WsClose k, SockLogout k] w1);
              w3 = (case truthy (authDir s) of
                      None \<Rightarrow> w2
                    | Some d \<Rightarrow> w2\<lparr>removing := removing w2 @ [d]\<rparr>);
              w4 = dropPhone (phone s) sessionId w3
          in w4\<lparr>sessions := (sessions w4)(sessionId := None)\<rparr>)"

definition rmSettled :: "rm_outcome \<Rightarrow> path \<Rightarrow> world \<Rightarrow> world" where
  "rmSettled out dir w =
     (if dir \<in> set (removing w)
      then snd (cleanupDir out dir (w\<lparr>removing := remove1 dir (removing w)\<rparr>))
      else w)"

definition maxWait :: nat where
  "maxWait = 3000"

definition pollInterval :: nat where
  "pollInterval = 200"

text \<open>
  The wait loop of \<open>finalizeSession\<close>. \<open>t\<close> is \<open>Date.now() - start\<close> in milliseconds
  and \<open>i\<close> counts the sleeps taken so far. The \<open>i\<close>-th sleep is described by
  \<open>naps i\<close>: how late the 200 ms timer fired, and what the other tasks did to the state
  while this one slept. After each sleep the session is fetched again; the result is
  \<open>None\<close> when it has gone (the function returns), and otherwise the reference held
  when the loop ends; with it come the number of sleeps and the time spent.
\<close>

function waitCredsSaved ::
  "(nat \<Rightarrow> nat \<times> (world \<Rightarrow> world)) \<Rightarrow> sid \<Rightarrow> nat \<Rightarrow> nat \<Rightarrow> ref \<Rightarrow> world
     \<Rightarrow> ref option \<times> nat \<times> nat \<times> world" where
  "waitCredsSaved naps sessionId i t s w =
     (if \<not> credsSaved (heap w s) \<and> t < maxWait
      then
        (let w' = snd (naps i) w;
             t' = t + pollInterval + fst (naps i)
         in case sessions w' sessionId of
              None \<Rightarrow> (None, Suc i, t', w')
            | Some s' \<Rightarrow> waitCredsSaved naps sessionId (Suc i) t' s' w')
      else (Some s, i, t, w))"
  by pat_completeness auto
termination
  by (relation "measure (\<lambda>(naps, sessionId, i, t, s, w). maxWait - t)")
     (auto simp: pollInterval_def)

declare waitCredsSaved.simps [simp del]

text \<open>The rest of \<open>finalizeSession\<close>, after the loop, on the object the loop ended with.\<close>

definition finishSession :: "rm_outcome \<Rightarrow> sid \<Rightarrow> string \<Rightarrow> ref \<Rightarrow> world \<Rightarrow> world" where
  "finishSession out sessionId reason r w =
     (let s = heap w r;
          w1 = (case socket s of
                  None \<Rightarrow> w
                | Some k \<Rightarrow> emit [SockLogout k, WsClose k] w);
          w2 = (case truthy (authDir s) of
                  None \<Rightarrow> w1
                | Some d \<Rightarrow> snd (cleanupDir out d w1));
          w3 = (case sse s of
                  None \<Rightarrow> w2
                | Some res \<Rightarrow> emit [SseEnd res] (sendSSE res ''finished'' (Finished reason) w2));
          w4 = dropPhone (phone s) sessionId w3
      in w4\<lparr>sessions := (sessions w4)(sessionId := None)\<rparr>)"

definition finalizeSession ::
  "(nat \<Rightarrow> nat \<times> (world \<Rightarrow> world)) \<Rightarrow> rm_outcome \<Rightarrow> sid \<Rightarrow> string \<Rightarrow> world \<Rightarrow> world" where
  "finalizeSession naps out sessionId reason w =
     (case sessions w sessionId of
        None \<Rightarrow> w
      | Some s0 \<Rightarrow>
          (case waitCredsSaved naps sessionId 0 0 s0 w of
             (None, n, t, w1) \<Rightarrow> w1
           | (Some s, n, t, w1) \<Rightarrow> finishSession out sessionId reason s w1))"

section \<open>Event Broadcaster\<close>

definition attachSSEToSession :: "sid \<Rightarrow> stream \<Rightarrow> world \<Rightarrow> world" where
  "attachSSEToSession id' res w =
     (case sessions w id' of
        Some r \<Rightarrow>
          w\<lparr>heap := (heap w)(r := (heap w r)\<lparr>sse := Some res\<rparr>),
            sessions := (sessions w)(id' \<mapsto> r)\<rparr>
      | None \<Rightarrow>
          let r = nextRef w
          in w\<lparr>nextRef := Suc r,
               heap := (heap w)(r := empty_session\<lparr>sse := Some res\<rparr>),
               sessions := (sessions w)(id' \<mapsto> r)\<rparr>)"

text \<open>\<open>GET /events/:id\<close>: attach the stream, send the first event.\<close>

definition getEvents :: "sid \<Rightarrow> stream \<Rightarrow> world \<Rightarrow> world" where
  "getEvents id' res w = sendSSE res ''status'' (Status ''waiting'') (attachSSEToSession id' res w)"

text \<open>The \<open>close\<close> handler of that request: \<open>delete sess.sse\<close>, then \<open>res.end()\<close>.\<close>

definition eventsClosed :: "sid \<Rightarrow> stream \<Rightarrow> world \<Rightarrow> world" where
  "eventsClosed id' res w =
     emit [SseEnd res]
       (case sessions w id' of
          None \<Rightarrow> w
        | Some r \<Rightarrow> w\<lparr>heap := (heap w)(r := (heap w r)\<lparr>sse := None\<rparr>)\<rparr>)"

section \<open>Flow Handlers\<close>

subsection \<open>The HTTP response of a request\<close>

text \<open>
  \<open>res.json\<close> on a response whose headers are already out throws
  (\<open>ERR_HTTP_HEADERS_SENT\<close>) and writes nothing; otherwise it sends the reply.
  \<open>resSent\<close> is the handler's own flag of that name.
\<close>

definition headersSent :: "rid \<Rightarrow> world \<Rightarrow> bool" where
  "headersSent q w = (sent (requests w q) \<noteq> [])"

definition res_json :: "rid \<Rightarrow> reply \<Rightarrow> world \<Rightarrow> (js_error + unit) \<times> world" where
  "res_json q rep w =
     (if headersSent q w then (Inl ''ERR_HTTP_HEADERS_SENT'', w)
      else (Inr (), w\<lparr>requests := (requests w)(q := (requests w q)\<lparr>sent := sent (requests w q) @ [rep]\<rparr>)\<rparr>))"

definition set_resSent :: "rid \<Rightarrow> bool \<Rightarrow> world \<Rightarrow> world" where
  "set_resSent q b w = w\<lparr>requests := (requests w)(q := (requests w q)\<lparr>resSent := b\<rparr>)\<rparr>"

text \<open>\<open>if (sess && sess.sse) sendSSE(sess.sse, event, data)\<close>.\<close>

definition sseTo :: "ref option \<Rightarrow> string \<Rightarrow> payload \<Rightarrow> world \<Rightarrow> world" where
  "sseTo sess ev dat w =
     (case sess of
        None \<Rightarrow> w
      | Some r \<Rightarrow> (case sse (heap w r) of None \<Rightarrow> w | Some res \<Rightarrow> sendSSE res ev dat w))"

text \<open>\<open>path.join(__dirname, 'auth', sessionId)\<close>, relative to \<open>__dirname\<close>.\<close>

definition authPath :: "sid \<Rightarrow> path" where
  "authPath sessionId = ''auth/'' @ sessionId"

text \<open>
  What the start of a flow gets from the protocol client: the socket, or the error
  thrown by \<open>useMultiFileAuthState\<close> or by \<open>makeWASocket\<close>. In both failures the
  variable \<open>socket\<close> is still unset when the \<open>catch\<close> runs.
\<close>

datatype client_start = SetupOk sock | AuthStateFailed js_error | MakeSocketFailed js_error

datatype conn = Connecting | Open | Close

record update =
  connection :: "conn option"
  qr :: "string option"

text \<open>
  What the part of a \<open>connection.update\<close> callback after the reply needs from outside:
  the account's own id (QR flow), the outcome of \<open>sendMessage\<close>, and what
  \<open>finalizeSession\<close> meets (its sleeps, the outcome of its removal).
\<close>

record flow_env =
  env_jid :: "string option"
  env_send :: "js_error option"
  env_naps :: "nat \<Rightarrow> nat \<times> (world \<Rightarrow> world)"
  env_rm :: rm_outcome

text \<open>
  The \<open>creds.update\<close> listener: await \<open>saveCreds\<close> (which writes into the credential
  directory, or rejects), then set the flag on the registered session.
\<close>

definition onCredsUpdate :: "sid \<Rightarrow> js_error + (disk \<Rightarrow> disk) \<Rightarrow> world \<Rightarrow> (js_error + unit) \<times> world" where
  "onCredsUpdate sessionId saved w =
     (case saved of
        Inl e \<Rightarrow> (Inl e, w)
      | Inr f \<Rightarrow>
          let w1 = w\<lparr>disk := f (disk w)\<rparr>
          in (case sessions w1 sessionId of
                None \<Rightarrow> (Inr (), w1)
              | Some r \<Rightarrow> (Inr (), w1\<lparr>heap := (heap w1)(r := (heap w1 r)\<lparr>credsSaved := True\<rparr>)\<rparr>)))"

subsection \<open>\<open>POST /qr\<close>\<close>

text \<open>The \<open>catch\<close> of the handler; \<open>socket\<close> is unset there.\<close>

definition qrCatch :: "rid \<Rightarrow> path \<Rightarrow> rm_outcome \<Rightarrow> world \<Rightarrow> world" where
  "qrCatch q dir out w =
     (let w1 = logger Err ''QR flow failed'' w;
          w2 = (if \<not> headersSent q w1
                then snd (res_json q (Reply 500 (ErrorBody ''failed to start qr session'')) w1)
                else w1)
      in snd (cleanupDir out dir w2))"

text \<open>
  The handler up to the end of its \<open>try\<close>. \<open>mkdir\<close> is awaited before the \<open>try\<close>: when
  it rejects, the handler's promise rejects (\<open>Inl\<close>) and nothing else runs.
\<close>

definition postQr ::
  "rid \<Rightarrow> sid \<Rightarrow> js_error option \<Rightarrow> client_start \<Rightarrow> rm_outcome \<Rightarrow> world \<Rightarrow> (js_error + unit) \<times> world" where
  "postQr q sessionId mk st out w =
     (let dir = authPath sessionId
      in case fs_mkdir mk dir (disk w) of
           (Inl e, d) \<Rightarrow> (Inl e, w\<lparr>disk := d\<rparr>)
         | (Inr u, d) \<Rightarrow>
             let w1 = set_resSent q False (w\<lparr>disk := d\<rparr>)
             in (case st of
                   SetupOk k \<Rightarrow>
                     let r = nextRef w1;
                         w2 = w1\<lparr>nextRef := Suc r,
                                 heap := (heap w1)(r := empty_session\<lparr>authDir := Some dir, socket := Some k\<rparr>),
                                 sessions := (sessions w1)(sessionId \<mapsto> r)\<rparr>
                     in (Inr (), startIdleTimer sessionId w2)
                 | AuthStateFailed e \<Rightarrow> (Inr (), qrCatch q dir out w1)
                 | MakeSocketFailed e \<Rightarrow> (Inr (), qrCatch q dir out w1)))"

text \<open>The \<open>connection === 'open'\<close> branch: token, delivery, \<open>finalizeSession\<close>.\<close>

definition qrOpened :: "sid \<Rightarrow> sock \<Rightarrow> ref option \<Rightarrow> flow_env \<Rightarrow> world \<Rightarrow> world" where
  "qrOpened sessionId k sess env w =
     (let w1 = sseTo sess ''status'' (Status ''connected'') (logger Info ''connection opened'' w);
          ser = serializeAuthDir (authPath sessionId) w1;
          token = makeToken (case fst ser of Inl e \<Rightarrow> [] | Inr filesObj \<Rightarrow> filesObj);
          w2 = snd ser;
          w3 = (case truthy (env_jid env) of
                  None \<Rightarrow> sseTo sess ''status'' (Status ''no_jid'') w2
                | Some j \<Rightarrow>
                    (case env_send env of
                       None \<Rightarrow> sseTo sess ''status'' (Status ''token_sent'') (emit [WaSend k j token] w2)
                     | Some e \<Rightarrow>
                         sseTo sess ''status'' (StatusError ''token_failed'' e)
                           (logger Warn ''failed to send token via WA'' w2)))
      in finalizeSession (env_naps env) (env_rm env) sessionId ''done'' w3)"

definition qrRest :: "sid \<Rightarrow> sock \<Rightarrow> ref option \<Rightarrow> update \<Rightarrow> flow_env \<Rightarrow> world \<Rightarrow> world" where
  "qrRest sessionId k sess upd env w =
     (let w1 = (if connection upd = Some Open then qrOpened sessionId k sess env w else w)
      in if connection upd = Some Close then logger Info ''connection closed'' w1 else w1)"

text \<open>
  The \<open>connection.update\<close> callback up to its first await. With a QR payload and no
  reply sent yet it suspends in \<open>QRCode.toDataURL\<close>; \<open>qrDataUrl\<close> is its continuation.
\<close>

definition qrUpdate :: "rid \<Rightarrow> sid \<Rightarrow> sock \<Rightarrow> update \<Rightarrow> flow_env \<Rightarrow> world \<Rightarrow> world" where
  "qrUpdate q sessionId k upd env w =
     (let w1 = startIdleTimer sessionId w;
          sess = sessions w1 sessionId
      in if truthy (qr upd) \<noteq> None \<and> \<not> resSent (requests w1 q)
         then w1
         else qrRest sessionId k sess upd env w1)"

definition qrFailed :: "rid \<Rightarrow> world \<Rightarrow> world" where
  "qrFailed q w =
     (let w1 = logger Warn ''failed generating qr dataurl'' w
      in if \<not> resSent (requests w1 q)
         then set_resSent q True (snd (res_json q (Reply 500 (ErrorBody ''failed to generate qr'')) w1))
         else w1)"

definition qrDataUrl ::
  "rid \<Rightarrow> sid \<Rightarrow> sock \<Rightarrow> ref option \<Rightarrow> update \<Rightarrow> js_error + string \<Rightarrow> flow_env \<Rightarrow> world \<Rightarrow> world" where
  "qrDataUrl q sessionId k sess upd url env w =
     (let w1 = (case url of
                  Inl e \<Rightarrow> qrFailed q w
                | Inr dataUrl \<Rightarrow>
                    (case res_json q (Reply 200 (QrBody sessionId dataUrl)) w of
                       (Inl e, w') \<Rightarrow> qrFailed q w'
                     | (Inr u, w') \<Rightarrow> sseTo sess ''qr'' (QrImage dataUrl) (set_resSent q True w')))
      in qrRest sessionId k sess upd env w1)"

subsection \<open>\<open>POST /pair\<close>\<close>

text \<open>
  The handler up to its first await: the check of the body, and the clearing of the
  session the phone index holds for this number. The flag says whether it goes on.
\<close>

definition pairBegin :: "rid \<Rightarrow> string option \<Rightarrow> world \<Rightarrow> bool \<times> world" where
  "pairBegin q phoneNumber w =
     (case truthy phoneNumber of
        None \<Rightarrow>
          (False, snd (res_json q (Reply 400 (ErrorBody ''phoneNumber required in E.164 without plus'')) w))
      | Some p \<Rightarrow>
          (True,
           case truthy (activeByPhone w p) of
             None \<Rightarrow> w
           | Some existing \<Rightarrow>
               clearSession existing
                 (logger Info ''clearing previous active pairing session for this phone'' w)))"

definition pairCatch :: "rid \<Rightarrow> path \<Rightarrow> rm_outcome \<Rightarrow> world \<Rightarrow> world" where
  "pairCatch q dir out w =
     (let w1 = logger Err ''Pair flow failed'' w;
          w2 = (if \<not> headersSent q w1
                then snd (res_json q (Reply 500 (ErrorBody ''failed to start pairing session'')) w1)
                else w1)
      in snd (cleanupDir out dir w2))"

text \<open>From the settling of \<open>mkdir\<close> to the end of the \<open>try\<close>.\<close>

definition pairSetup ::
  "rid \<Rightarrow> sid \<Rightarrow> phone_no \<Rightarrow> js_error option \<Rightarrow> client_start \<Rightarrow> rm_outcome \<Rightarrow> world
     \<Rightarrow> (js_error + unit) \<times> world" where
  "pairSetup q sessionId phoneNumber mk st out w =
     (let dir = authPath sessionId
      in case fs_mkdir mk dir (disk w) of
           (Inl e, d) \<Rightarrow> (Inl e, w\<lparr>disk := d\<rparr>)
         | (Inr u, d) \<Rightarrow>
             let w1 = set_resSent q False (w\<lparr>disk := d\<rparr>)
             in (case st of
                   SetupOk k \<Rightarrow>
                     let r = nextRef w1;
                         w2 = w1\<lparr>nextRef := Suc r,
                                 heap := (heap w1)(r := empty_session\<lparr>authDir := Some dir,
                                            socket := Some k, phone := Some phoneNumber\<rparr>),
                                 sessions := (sessions w1)(sessionId \<mapsto> r),
                                 activeByPhone := (activeByPhone w1)(phoneNumber \<mapsto> sessionId)\<rparr>
                     in (Inr (), startIdleTimer sessionId w2)
                 | AuthStateFailed e \<Rightarrow> (Inr (), pairCatch q dir out w1)
                 | MakeSocketFailed e \<Rightarrow> (Inr (), pairCatch q dir out w1)))"

text \<open>The whole handler when no other task runs between its awaits.\<close>

definition postPair ::
  "rid \<Rightarrow> string option \<Rightarrow> sid \<Rightarrow> js_error option \<Rightarrow> client_start \<Rightarrow> rm_outcome \<Rightarrow> world
     \<Rightarrow> (js_error + unit) \<times> world" where
  "postPair q phoneNumber sessionId mk st out w =
     (case pairBegin q phoneNumber w of
        (False, w1) \<Rightarrow> (Inr (), w1)
      | (True, w1) \<Rightarrow>
          pairSetup q sessionId (case phoneNumber of None \<Rightarrow> [] | Some p \<Rightarrow> p) mk st out w1)"

text \<open>
  What the pairing-code request meets: whether the socket became ready within the
  5 s of \<open>waitForWsOpen\<close>, the outcome of \<open>requestPairingCode\<close>, and the outcome of the
  one retry made when the first error message contains \<open>Connection Closed\<close>.
\<close>

record pairing =
  wsReady :: bool
  firstTry :: "js_error + string"
  retry :: "js_error + string"

fun starts_with :: "string \<Rightarrow> string \<Rightarrow> bool" where
  "starts_with [] ys = True"
| "starts_with (x # xs) [] = False"
| "starts_with (x # xs) (y # ys) = (x = y \<and> starts_with xs ys)"

fun js_includes :: "string \<Rightarrow> string \<Rightarrow> bool" where
  "js_includes [] needle = (needle = [])"
| "js_includes (h # hs) needle = (starts_with needle (h # hs) \<or> js_includes hs needle)"

definition requestCode :: "pairing \<Rightarrow> world \<Rightarrow> (js_error + string) \<times> world" where
  "requestCode pr w =
     (case firstTry pr of
        Inr code \<Rightarrow> (Inr code, w)
      | Inl msg \<Rightarrow>
          if js_includes msg ''Connection Closed''
          then (retry pr,
                logger Warn ''requestPairingCode failed with Connection Closed, retrying once'' w)
          else (Inl msg, w))"

definition pairFailed :: "rid \<Rightarrow> world \<Rightarrow> world" where
  "pairFailed q w =
     (let w1 = logger Warn ''requestPairingCode failed'' w
      in if \<not> resSent (requests w1 q)
         then set_resSent q True
                (snd (res_json q (Reply 500 (ErrorBody ''failed request pairing code'')) w1))
         else w1)"

definition pairOpened :: "sid \<Rightarrow> sock \<Rightarrow> phone_no \<Rightarrow> ref option \<Rightarrow> flow_env \<Rightarrow> world \<Rightarrow> world" where
  "pairOpened sessionId k phoneNumber sess env w =
     (let w1 = sseTo sess ''status'' (Status ''connected'') w;
          ser = serializeAuthDir (authPath sessionId) w1;
          token = makeToken (case fst ser of Inl e \<Rightarrow> [] | Inr filesObj \<Rightarrow> filesObj);
          w2 = snd ser;
          w3 = (case env_send env of
                  None \<Rightarrow>
                    sseTo sess ''status'' (Status ''token_sent'')
                      (emit [WaSend k (phoneNumber @ ''@s.whatsapp.net'') token] w2)
                | Some e \<Rightarrow>
                    sseTo sess ''status'' (StatusError ''token_failed'' e)
                      (logger Warn ''failed to send token via WA'' w2));
          w4 = finalizeSession (env_naps env) (env_rm env) sessionId ''done'' w3;
          w5 = w4\<lparr>sessions := (sessions w4)(sessionId := None)\<rparr>
      in if activeByPhone w5 phoneNumber = Some sessionId
         then w5\<lparr>activeByPhone := (activeByPhone w5)(phoneNumber := None)\<rparr>
         else w5)"

definition pairRest ::
  "sid \<Rightarrow> sock \<Rightarrow> phone_no \<Rightarrow> ref option \<Rightarrow> update \<Rightarrow> flow_env \<Rightarrow> world \<Rightarrow> world" where
  "pairRest sessionId k phoneNumber sess upd env w =
     (let w1 = (if connection upd = Some Open then pairOpened sessionId k phoneNumber sess env w else w)
      in if connection upd = Some Close then logger Info ''connection closed'' w1 else w1)"

text \<open>
  The \<open>connection.update\<close> callback up to its first await. On \<open>connecting\<close> or a QR
  payload, with no reply sent yet, it suspends in \<open>waitForWsOpen\<close>; \<open>pairCode\<close> is the
  continuation from the settling of the pairing-code request.
\<close>

definition pairUpdate ::
  "rid \<Rightarrow> sid \<Rightarrow> sock \<Rightarrow> phone_no \<Rightarrow> update \<Rightarrow> flow_env \<Rightarrow> world \<Rightarrow> world" where
  "pairUpdate q sessionId k phoneNumber upd env w =
     (let w1 = startIdleTimer sessionId w;
          sess = sessions w1 sessionId
      in if (connection upd = Some Connecting \<or> truthy (qr upd) \<noteq> None) \<and> \<not> resSent (requests w1 q)
         then w1
         else pairRest sessionId k phoneNumber sess upd env w1)"

definition pairCode ::
  "rid \<Rightarrow> sid \<Rightarrow> sock \<Rightarrow> phone_no \<Rightarrow> ref option \<Rightarrow> update \<Rightarrow> pairing \<Rightarrow> flow_env \<Rightarrow> world
     \<Rightarrow> world" where
  "pairCode q sessionId k phoneNumber sess upd pr env w =
     (let w0 = (if wsReady pr then w
                else logger Warn ''ws not ready before requesting pairing code, will attempt anyway'' w);
          w1 = (case requestCode pr w0 of
                  (Inl e, w') \<Rightarrow> pairFailed q w'
                | (Inr code, w') \<Rightarrow>
                    if \<not> resSent (requests w' q)
                    then (case res_json q (Reply 200 (PairBody sessionId code)) w' of
                            (Inl e, w'') \<Rightarrow> pairFailed q w''
                          | (Inr u, w'') \<Rightarrow>
                              sseTo sess ''pair'' (PairingCode code) (set_resSent q True w''))
                    else sseTo sess ''pair'' (PairingCode code) w')
      in pairRest sessionId k phoneNumber sess upd env w1)"

section \<open>The tasks of the event loop\<close>

text \<open>
  One step is one task: a stretch of the file that runs without awaiting. Any order of
  steps is allowed, so every interleaving of requests, callbacks, timers and settling
  file operations is a run.
\<close>

datatype step =
    GetEvents sid stream
  | EventsClosed sid stream
  | PostQr rid sid "js_error option" client_start rm_outcome
  | CredsUpdate sid "js_error + (disk \<Rightarrow> disk)"
  | QrUpdate rid sid sock update flow_env
  | QrDataUrl rid sid sock "ref option" update "js_error + string" flow_env
  | PairBegin rid "string option"
  | PairSetup rid sid phone_no "js_error option" client_start rm_outcome
  | PairUpdate rid sid sock phone_no update flow_env
  | PairCode rid sid sock phone_no "ref option" update pairing flow_env
  | TimerFired timer rm_outcome
  | RmSettled rm_outcome path

fun exec :: "step \<Rightarrow> world \<Rightarrow> world" where
  "exec (GetEvents i res) w = getEvents i res w"
| "exec (EventsClosed i res) w = eventsClosed i res w"
| "exec (PostQr q i mk st out) w = snd (postQr q i mk st out w)"
| "exec (CredsUpdate i saved) w = snd (onCredsUpdate i saved w)"
| "exec (QrUpdate q i k upd env) w = qrUpdate q i k upd env w"
| "exec (QrDataUrl q i k sess upd url env) w = qrDataUrl q i k sess upd url env w"
| "exec (PairBegin q ph) w = snd (pairBegin q ph w)"
| "exec (PairSetup q i p mk st out) w = snd (pairSetup q i p mk st out w)"
| "exec (PairUpdate q i k p upd env) w = pairUpdate q i k p upd env w"
| "exec (PairCode q i k p sess upd pr env) w = pairCode q i k p sess upd pr env w"
| "exec (TimerFired t out) w = timerFired t out w"
| "exec (RmSettled out dir) w = rmSettled out dir w"

fun run :: "step list \<Rightarrow> world \<Rightarrow> world" where
  "run [] w = w"
| "run (st # sts) w = run sts (exec st w)"

definition world0 :: world where
  "world0 = \<lparr>sessions = (\<lambda>i. None), heap = (\<lambda>r. empty_session), nextRef = 0,
     activeByPhone = (\<lambda>p. None), disk = (\<lambda>p. None), removing = [],
     timers = (\<lambda>t. None), nextTimer = 0,
     requests = (\<lambda>q. \<lparr>resSent = False, sent = []\<rparr>), wire = [], logged = []\<rparr>"

section \<open>Example runs\<close>

text \<open>No other task runs during a sleep, and every timer is punctual.\<close>

definition quiet :: "nat \<Rightarrow> nat \<times> (world \<Rightarrow> world)" where
  "quiet = (\<lambda>i. (0, \<lambda>w. w))"

text \<open>One pairing session, registered by \<open>POST /pair\<close> on the empty service.\<close>

definition paired :: world where
  "paired = run [PairBegin 1 (Some ''15551234567''),
                 PairSetup 1 ''s1'' ''15551234567'' None (SetupOk 7) RmDone] world0"

text \<open>
  A second \<open>POST /pair\<close> for the same number, up to the reply that carries the new
  session id; the removal started by \<open>clearSession\<close> has not settled.
\<close>

definition repaired :: world where
  "repaired = run [PairBegin 2 (Some ''15551234567''),
                   PairSetup 2 ''s2'' ''15551234567'' None (SetupOk 8) RmDone,
                   PairUpdate 2 ''s2'' 8 ''15551234567'' \<lparr>connection = Some Connecting, qr = None\<rparr>
                     \<lparr>env_jid = None, env_send = None, env_naps = quiet, env_rm = RmDone\<rparr>,
                   PairCode 2 ''s2'' 8 ''15551234567'' (Some 1) \<lparr>connection = Some Connecting, qr = None\<rparr>
                     \<lparr>wsReady = True, firstTry = Inr ''ABCD1234'', retry = Inl ''unused''\<rparr>
                     \<lparr>env_jid = None, env_send = None, env_naps = quiet, env_rm = RmDone\<rparr>] paired"

text \<open>A credential directory with two files and one subdirectory.\<close>

definition creds_dir :: "(string \<times> node) list" where
  "creds_dir = [(''creds.json'', RegFile (Some ''{}'')),
                (''keys'', Dir (Some [(''inner.json'', RegFile (Some ''x''))])),
                (''pre-key-1.json'', RegFile (Some ''abc''))]"

definition stored :: world where
  "stored = world0\<lparr>disk := (\<lambda>p. None)(''auth/s1'' \<mapsto> Dir (Some creds_dir))\<rparr>"

section \<open>Interleavings\<close>





text \<open>The reply of request \<open>q\<close> has been written at most once.\<close>

definition once :: "rid \<Rightarrow> world \<Rightarrow> bool" where
  "once q w = (length (sent (requests w q)) \<le> 1)"



text \<open>
  The entry of \<open>i\<close> in the registry is \<open>r\<close>, and neither the phone index nor a pending
  idle timer refers to \<open>i\<close>.
\<close>

definition kept :: "sid \<Rightarrow> ref \<Rightarrow> world \<Rightarrow> bool" where
  "kept i r w = (sessions w i = Some r \<and> (\<forall>p. activeByPhone w p \<noteq> Some i)
                  \<and> (\<forall>t. timers w t \<noteq> Some i))"

text \<open>
  A QR flow that ran to the end: the connection opened, the token was sent and
  \<open>finalizeSession\<close> removed the session. The timer armed by the last
  \<open>connection.update\<close> is still pending.
\<close>

definition finished :: world where
  "finished = run [PostQr 1 ''s1'' None (SetupOk 7) RmDone,
                   QrUpdate 1 ''s1'' 7 \<lparr>connection = Some Open, qr = None\<rparr>
                     \<lparr>env_jid = Some ''me@s.whatsapp.net'', env_send = None,
                      env_naps = quiet, env_rm = RmDone\<rparr>] world0"


section \<open>Properties\<close>

lemma cleanupDir_returns: "fst (cleanupDir out dir w) = Inr ()"
  by (cases out) (simp_all add: cleanupDir_def)

lemma cleanupDir_done_disk: "disk (snd (cleanupDir RmDone dir w)) = (disk w)(dir := None)"
  by (simp add: cleanupDir_def)

lemma cleanupDir_absent_disk:
  "disk w dir = None \<Longrightarrow> disk (snd (cleanupDir out dir w)) = disk w"
  by (cases out) (auto simp: cleanupDir_def logger_def)

text \<open>
  C8. \<open>cleanupDir\<close> never rejects: for every path, every disk and every outcome of the
  removal (success, failure, failure after a partial removal) its promise resolves.
  After one successful removal the directory is gone, and every later call on the same
  path resolves again and leaves the disk as it is; when that later removal reports
  success the whole state is unchanged.
\<close>

theorem C8_cleanupDir_never_raises_idempotent:
  "fst (cleanupDir out dir w) = Inr ()
   \<and> disk (snd (cleanupDir RmDone dir w)) dir = None
   \<and> fst (cleanupDir out2 dir (snd (cleanupDir RmDone dir w))) = Inr ()
   \<and> disk (snd (cleanupDir out2 dir (snd (cleanupDir RmDone dir w))))
       = disk (snd (cleanupDir RmDone dir w))
   \<and> snd (cleanupDir RmDone dir (snd (cleanupDir RmDone dir w))) = snd (cleanupDir RmDone dir w)"
proof -
  let ?w1 = "snd (cleanupDir RmDone dir w)"
  have gone: "disk ?w1 dir = None"
    by (simp add: cleanupDir_done_disk)
  have same: "disk (snd (cleanupDir out2 dir ?w1)) = disk ?w1"
    using gone by (rule cleanupDir_absent_disk)
  have noop: "snd (cleanupDir RmDone dir ?w1) = ?w1"
    by (simp add: cleanupDir_def)
  show ?thesis
    using gone same noop by (simp add: cleanupDir_returns)
qed

subsection \<open>Session lifecycle\<close>

lemmas flow_defs = pairBegin_def pairSetup_def postQr_def startIdleTimer_def clearSession_def
  dropPhone_def emit_def logger_def sendSSE_def cleanupDir_def authPath_def set_resSent_def
  res_json_def headersSent_def empty_session_def world0_def Let_def

lemma dropPhone_fields [simp]:
  "sessions (dropPhone ph s w) = sessions w"
  "disk (dropPhone ph s w) = disk w"
  "heap (dropPhone ph s w) = heap w"
  "removing (dropPhone ph s w) = removing w"
  "timers (dropPhone ph s w) = timers w"
  "requests (dropPhone ph s w) = requests w"
  by (simp_all add: dropPhone_def split: option.splits)

lemma emit_fields [simp]:
  "sessions (emit es w) = sessions w" "disk (emit es w) = disk w"
  "activeByPhone (emit es w) = activeByPhone w" "heap (emit es w) = heap w"
  "removing (emit es w) = removing w" "timers (emit es w) = timers w"
  "requests (emit es w) = requests w"
  by (simp_all add: emit_def)

lemma logger_fields [simp]:
  "sessions (logger l m w) = sessions w" "disk (logger l m w) = disk w"
  "activeByPhone (logger l m w) = activeByPhone w" "heap (logger l m w) = heap w"
  "removing (logger l m w) = removing w" "timers (logger l m w) = timers w"
  "requests (logger l m w) = requests w" "wire (logger l m w) = wire w"
  by (simp_all add: logger_def)

lemma sendSSE_fields [simp]:
  "sessions (sendSSE r e d w) = sessions w" "disk (sendSSE r e d w) = disk w"
  "activeByPhone (sendSSE r e d w) = activeByPhone w" "heap (sendSSE r e d w) = heap w"
  "removing (sendSSE r e d w) = removing w" "timers (sendSSE r e d w) = timers w"
  "requests (sendSSE r e d w) = requests w"
  by (simp_all add: sendSSE_def)

lemma cleanupDir_fields [simp]:
  "sessions (snd (cleanupDir out dir w)) = sessions w"
  "activeByPhone (snd (cleanupDir out dir w)) = activeByPhone w"
  "heap (snd (cleanupDir out dir w)) = heap w"
  "removing (snd (cleanupDir out dir w)) = removing w"
  "timers (snd (cleanupDir out dir w)) = timers w"
  "requests (snd (cleanupDir out dir w)) = requests w"
  "wire (snd (cleanupDir out dir w)) = wire w"
  by (cases out; simp add: cleanupDir_def logger_def)+

lemma cleanupDir_done_gone [simp]: "disk (snd (cleanupDir RmDone dir w)) dir = None"
  by (simp add: cleanupDir_def)

lemma clearSession_absent: "sessions (clearSession i w) i = None"
  by (simp add: clearSession_def Let_def split: option.splits)

lemma idleCallback_absent: "sessions (idleCallback out i w) i = None"
  by (simp add: idleCallback_def Let_def split: option.splits)

lemma finishSession_absent: "sessions (finishSession out i reason r w) i = None"
  by (simp add: finishSession_def Let_def split: option.splits)

lemma timerFired_absent: "timers w t = Some i \<Longrightarrow> sessions (timerFired t out w) i = None"
  by (simp add: timerFired_def idleCallback_absent)

lemma wait_gone:
  "waitCredsSaved naps i k t s w = (None, n, t', w') \<Longrightarrow> sessions w' i = None"
proof (induction naps i k t s w rule: waitCredsSaved.induct)
  case (1 naps sessionId i t s w)
  note unfold = waitCredsSaved.simps [of naps sessionId i t s w]
  show ?case
  proof (cases "\<not> credsSaved (heap w s) \<and> t < maxWait")
    case True
    show ?thesis
    proof (cases "sessions (snd (naps i) w) sessionId")
      case None
      with True "1.prems" show ?thesis by (simp add: unfold Let_def)
    next
      case (Some s')
      with True "1.prems" "1.IH" show ?thesis by (simp add: unfold Let_def)
    qed
  next
    case False
    with "1.prems" show ?thesis by (simp add: unfold)
  qed
qed

lemma finalizeSession_absent: "sessions (finalizeSession naps out i reason w) i = None"
  by (auto simp: finalizeSession_def finishSession_absent split: option.splits prod.splits dest: wait_gone)

lemma finalizeSession_after_wait:
  "sessions w i = Some s \<Longrightarrow> waitCredsSaved naps i 0 0 s w = (Some r, n, t, w')
   \<Longrightarrow> finalizeSession naps out i reason w = finishSession out i reason r w'"
  by (simp add: finalizeSession_def)

lemma finishSession_disk:
  "truthy (authDir (heap w r)) = Some d \<Longrightarrow> disk (finishSession RmDone i reason r w) d = None"
  by (simp add: finishSession_def Let_def split: option.splits)

lemma idleCallback_disk:
  "sessions w i = Some r \<Longrightarrow> truthy (authDir (heap w r)) = Some d
   \<Longrightarrow> disk (idleCallback RmDone i w) d = None"
  by (simp add: idleCallback_def Let_def split: option.splits)

lemma clearSession_disk: "disk (clearSession i w) = disk w"
  by (simp add: clearSession_def Let_def split: option.splits)

lemma clearSession_removing:
  "sessions w i = Some r \<Longrightarrow> truthy (authDir (heap w r)) = Some d
   \<Longrightarrow> removing (clearSession i w) = removing w @ [d]"
  by (simp add: clearSession_def Let_def split: option.splits)

lemma rmSettled_done: "d \<in> set (removing w) \<Longrightarrow> disk (rmSettled RmDone d w) d = None"
  by (simp add: rmSettled_def)

text \<open>
  C1 (amended). After each terminal transition (forced clear, finalize, firing of the
  idle timer) the id is absent from the registry. The credential directory is removed
  best-effort: the idle callback and \<open>finalizeSession\<close> await one removal, and the
  directory is gone when that removal succeeds; \<open>clearSession\<close> only starts the removal,
  so on its return the disk is unchanged and the path is pending, and the directory is
  gone once the pending removal settles with success.
\<close>

theorem C1_terminal_transitions:
  "sessions (clearSession i w) i = None
   \<and> sessions (finalizeSession naps out i reason w) i = None
   \<and> (timers w t = Some i \<longrightarrow> sessions (timerFired t out w) i = None)
   \<and> (sessions w i = Some s \<and> truthy (authDir (heap w s)) = Some d \<longrightarrow>
        disk (clearSession i w) = disk w
        \<and> d \<in> set (removing (clearSession i w))
        \<and> disk (rmSettled RmDone d (clearSession i w)) d = None
        \<and> disk (idleCallback RmDone i w) d = None)
   \<and> (sessions w i = Some s \<and> waitCredsSaved naps i 0 0 s w = (Some r, n, e, w')
        \<and> truthy (authDir (heap w' r)) = Some d' \<longrightarrow>
        disk (finalizeSession naps RmDone i reason w) d' = None)"
proof -
  have a: "sessions (clearSession i w) i = None"
    by (rule clearSession_absent)
  have b: "sessions (finalizeSession naps out i reason w) i = None"
    by (rule finalizeSession_absent)
  have c: "timers w t = Some i \<longrightarrow> sessions (timerFired t out w) i = None"
    by (simp add: timerFired_absent)
  have d: "sessions w i = Some s \<and> truthy (authDir (heap w s)) = Some d \<longrightarrow>
        disk (clearSession i w) = disk w
        \<and> d \<in> set (removing (clearSession i w))
        \<and> disk (rmSettled RmDone d (clearSession i w)) d = None
        \<and> disk (idleCallback RmDone i w) d = None"
    by (simp add: clearSession_disk clearSession_removing rmSettled_done idleCallback_disk)
  have e: "sessions w i = Some s \<and> waitCredsSaved naps i 0 0 s w = (Some r, n, e, w')
        \<and> truthy (authDir (heap w' r)) = Some d' \<longrightarrow>
        disk (finalizeSession naps RmDone i reason w) d' = None"
    by (simp add: finalizeSession_after_wait finishSession_disk)
  from a b c d e show ?thesis by blast
qed

lemma paired_s1: "sessions paired ''s1'' = Some 0"
  by (simp add: paired_def flow_defs)

lemma paired_heap0: "heap paired 0 = \<lparr>authDir = Some ''auth/s1'', socket = Some 7,
    phone = Some ''15551234567'', sse = None, credsSaved = False, idleTimer = Some 0\<rparr>"
  by (simp add: paired_def flow_defs)

lemma paired_timers: "timers paired 0 = Some ''s1''"
  by (simp add: paired_def flow_defs)

lemma paired_disk: "disk paired ''auth/s1'' = Some (Dir (Some []))"
  by (simp add: paired_def flow_defs)

lemma paired_wait: "waitCredsSaved quiet ''s1'' 0 0 0 paired = (Some 0, 15, 3000, paired)"
  by (simp add: waitCredsSaved.simps quiet_def maxWait_def pollInterval_def paired_s1 paired_heap0)

text \<open>
  The claim as stated fails: after \<open>clearSession\<close> the session is gone from the
  registry while its directory is still on disk, and the same holds after a
  \<open>finalizeSession\<close> whose removal failed.
\<close>

theorem C1_counterexample:
  "sessions paired ''s1'' = Some 0 \<and> authDir (heap paired 0) = Some ''auth/s1''
   \<and> sessions (clearSession ''s1'' paired) ''s1'' = None
   \<and> disk (clearSession ''s1'' paired) ''auth/s1'' \<noteq> None
   \<and> sessions (finalizeSession quiet (RmFailed ''EBUSY'' []) ''s1'' ''done'' paired) ''s1'' = None
   \<and> disk (finalizeSession quiet (RmFailed ''EBUSY'' []) ''s1'' ''done'' paired) ''auth/s1'' \<noteq> None"
  by (simp add: paired_s1 paired_heap0 paired_disk clearSession_disk clearSession_absent
      finalizeSession_absent finalizeSession_after_wait [OF paired_s1 paired_wait]
      finishSession_def cleanupDir_def Let_def)

theorem C1_terminal_transitions_witness:
  "sessions (clearSession ''s1'' paired) ''s1'' = None
   \<and> sessions (finalizeSession quiet RmDone ''s1'' ''done'' paired) ''s1'' = None
   \<and> sessions (timerFired 0 RmDone paired) ''s1'' = None
   \<and> disk (clearSession ''s1'' paired) = disk paired
   \<and> ''auth/s1'' \<in> set (removing (clearSession ''s1'' paired))
   \<and> disk (rmSettled RmDone ''auth/s1'' (clearSession ''s1'' paired)) ''auth/s1'' = None
   \<and> disk (idleCallback RmDone ''s1'' paired) ''auth/s1'' = None
   \<and> disk (finalizeSession quiet RmDone ''s1'' ''done'' paired) ''auth/s1'' = None"
  using C1_terminal_transitions [of "''s1''" paired quiet RmDone "''done''" 0 0 "''auth/s1''" 0 15 3000 paired "''auth/s1''"]
  by (simp add: paired_s1 paired_heap0 paired_timers paired_wait)

subsection \<open>The wait of \<open>finalizeSession\<close>\<close>







subsection \<open>Flow handlers: failures, supersession\<close>

lemma postQr_mkdir_fails: "postQr q i (Some e) st out w = (Inl e, w)"
  by (simp add: postQr_def)

text \<open>
  C5. \<open>mkdir\<close> is awaited before the \<open>try\<close> of the \<open>POST /qr\<close> handler. When it fails
  with \<open>EACCES\<close> the handler's promise rejects with that error and the state is left as
  it was: no registry entry, and no reply written by the handler. The failures inside
  the \<open>try\<close> do reach the \<open>catch\<close> and are answered with status 500 and an error body.
\<close>

theorem C5_postQr_mkdir_rejects:
  "postQr 1 ''s1'' (Some ''EACCES'') (SetupOk 7) RmDone world0 = (Inl ''EACCES'', world0)
   \<and> sent (requests world0 1) = []
   \<and> sessions world0 ''s1'' = None
   \<and> sent (requests (snd (postQr 1 ''s1'' None (AuthStateFailed ''EIO'') RmDone world0)) 1)
       = [Reply 500 (ErrorBody ''failed to start qr session'')]"
  by (simp add: qrCatch_def flow_defs)

lemma clearSession_phone:
  "sessions w old = Some r \<Longrightarrow> phone (heap w r) = Some p \<Longrightarrow> p \<noteq> [] \<Longrightarrow> activeByPhone w p = Some old
   \<Longrightarrow> activeByPhone (clearSession old w) p = None"
  by (simp add: clearSession_def dropPhone_def Let_def split: option.splits)

lemma clearSession_requests [simp]: "requests (clearSession i w) = requests w"
  by (simp add: clearSession_def Let_def split: option.splits)

lemma pairBegin_clears:
  "p \<noteq> [] \<Longrightarrow> old \<noteq> [] \<Longrightarrow> activeByPhone w p = Some old
   \<Longrightarrow> pairBegin q (Some p) w
       = (True, clearSession old (logger Info ''clearing previous active pairing session for this phone'' w))"
  by (simp add: pairBegin_def)

lemma pairSetup_registers:
  "activeByPhone (snd (pairSetup q i p None (SetupOk k) out w)) p = Some i"
  by (simp add: pairSetup_def startIdleTimer_def set_resSent_def Let_def split: option.splits)

lemma pairSetup_ok_sessions:
  "sessions (snd (pairSetup q i p None (SetupOk k) out w)) = (sessions w)(i \<mapsto> nextRef w)"
  by (simp add: pairSetup_def startIdleTimer_def set_resSent_def Let_def split: option.splits)

lemma pairSetup_ok_sent:
  "sent (requests (snd (pairSetup q i p None (SetupOk k) out w)) q') = sent (requests w q')"
  by (simp add: pairSetup_def startIdleTimer_def set_resSent_def Let_def split: option.splits)

lemma pairSetup_ok_removing:
  "removing (snd (pairSetup q i p None (SetupOk k) out w)) = removing w"
  by (simp add: pairSetup_def startIdleTimer_def set_resSent_def Let_def split: option.splits)

lemma pairSetup_ok_disk:
  "d \<noteq> authPath i \<Longrightarrow> disk (snd (pairSetup q i p None (SetupOk k) out w)) d = disk w d"
  by (simp add: pairSetup_def startIdleTimer_def set_resSent_def Let_def split: option.splits)

lemma at_most_one: "card {i. activeByPhone w p = Some i} \<le> 1"
proof (cases "activeByPhone w p")
  case None
  then show ?thesis by simp
next
  case (Some a)
  then have "{i. activeByPhone w p = Some i} = {a}" by auto
  then show ?thesis by simp
qed


lemma logger_clear [simp]: "activeByPhone (logger l m w) p = activeByPhone w p"
  by (simp add: logger_def)

lemma postPair_begin_setup:
  "p \<noteq> [] \<Longrightarrow> old \<noteq> [] \<Longrightarrow> activeByPhone w p = Some old
   \<Longrightarrow> postPair q (Some p) new mk st out w
       = pairSetup q new p mk st out
           (clearSession old (logger Info ''clearing previous active pairing session for this phone'' w))"
  by (simp add: postPair_def pairBegin_clears)

text \<open>
  C3. The phone index holds at most one session id for a phone number. A
  \<open>POST /pair\<close> for a number the index maps to \<open>old\<close> calls \<open>clearSession old\<close> in its
  first task; the registration of the new id is made later, by \<open>pairSetup\<close>, on the state
  \<open>clearSession\<close> left, and sets the index to the new id. When \<open>old\<close> is registered
  with that number, it is out of the registry and out of the index before the
  registration.
\<close>

theorem C3_phone_index:
  "card {i. activeByPhone w' p' = Some i} \<le> 1
   \<and> (p \<noteq> [] \<and> old \<noteq> [] \<and> activeByPhone w p = Some old \<longrightarrow>
        pairBegin q (Some p) w
          = (True, clearSession old
                     (logger Info ''clearing previous active pairing session for this phone'' w))
        \<and> postPair q (Some p) new None (SetupOk k) out w
          = pairSetup q new p None (SetupOk k) out (snd (pairBegin q (Some p) w))
        \<and> activeByPhone (snd (postPair q (Some p) new None (SetupOk k) out w)) p = Some new
        \<and> (sessions w old = Some r \<and> phone (heap w r) = Some p \<longrightarrow>
              sessions (snd (pairBegin q (Some p) w)) old = None
              \<and> activeByPhone (snd (pairBegin q (Some p) w)) p = None))"
proof -
  have one: "card {i. activeByPhone w' p' = Some i} \<le> 1"
    by (rule at_most_one)
  have rest: "pairBegin q (Some p) w
          = (True, clearSession old
                     (logger Info ''clearing previous active pairing session for this phone'' w))
        \<and> postPair q (Some p) new None (SetupOk k) out w
          = pairSetup q new p None (SetupOk k) out (snd (pairBegin q (Some p) w))
        \<and> activeByPhone (snd (postPair q (Some p) new None (SetupOk k) out w)) p = Some new
        \<and> (sessions w old = Some r \<and> phone (heap w r) = Some p \<longrightarrow>
              sessions (snd (pairBegin q (Some p) w)) old = None
              \<and> activeByPhone (snd (pairBegin q (Some p) w)) p = None)"
    if "p \<noteq> []" "old \<noteq> []" "activeByPhone w p = Some old"
    using that
    by (simp add: pairBegin_clears postPair_begin_setup pairSetup_registers
        clearSession_absent clearSession_phone)
  from one rest show ?thesis by blast
qed

lemma paired_phone: "activeByPhone paired ''15551234567'' = Some ''s1''"
  by (simp add: paired_def flow_defs)

theorem C3_phone_index_witness:
  "card {i. activeByPhone paired ''15551234567'' = Some i} \<le> 1
   \<and> activeByPhone paired ''15551234567'' = Some ''s1''
   \<and> sessions paired ''s1'' = Some 0 \<and> phone (heap paired 0) = Some ''15551234567''
   \<and> pairBegin 2 (Some ''15551234567'') paired
        = (True, clearSession ''s1''
                   (logger Info ''clearing previous active pairing session for this phone'' paired))
   \<and> activeByPhone (snd (postPair 2 (Some ''15551234567'') ''s2'' None (SetupOk 8) RmDone paired))
        ''15551234567'' = Some ''s2''
   \<and> sessions (snd (pairBegin 2 (Some ''15551234567'') paired)) ''s1'' = None
   \<and> activeByPhone (snd (pairBegin 2 (Some ''15551234567'') paired)) ''15551234567'' = None"
proof -
  have hyp: "''15551234567'' \<noteq> [] \<and> ''s1'' \<noteq> []
      \<and> activeByPhone paired ''15551234567'' = Some ''s1''"
    by (simp add: paired_phone)
  have reg: "sessions paired ''s1'' = Some 0 \<and> phone (heap paired 0) = Some ''15551234567''"
    by (simp add: paired_s1 paired_heap0)
  from C3_phone_index [of paired "''15551234567''" "''15551234567''" "''s1''" paired 2 "''s2''" 8 RmDone 0]
    hyp reg
  show ?thesis by blast
qed

text \<open>
  C4 (amended). A \<open>POST /pair\<close> for a number with a registered, unfinished session
  \<open>old\<close>: after the first task of the handler (\<open>w1\<close>) and after the registration of the
  new session (\<open>w2\<close>), no reply has been written yet, \<open>old\<close> is out of the registry, the
  phone index no longer resolves to \<open>old\<close>, and the removal of the old credential
  directory has been started; the directory itself is still as it was on disk.
\<close>

theorem C4_supersession_before_reply:
  "p \<noteq> [] \<Longrightarrow> old \<noteq> [] \<Longrightarrow> activeByPhone w p = Some old \<Longrightarrow> sessions w old = Some r
   \<Longrightarrow> phone (heap w r) = Some p \<Longrightarrow> truthy (authDir (heap w r)) = Some d
   \<Longrightarrow> new \<noteq> old \<Longrightarrow> d \<noteq> authPath new
   \<Longrightarrow> w1 = snd (pairBegin q (Some p) w)
   \<Longrightarrow> w2 = snd (postPair q (Some p) new None (SetupOk k) out w)
   \<Longrightarrow> sessions w1 old = None \<and> activeByPhone w1 p = None
       \<and> d \<in> set (removing w1) \<and> disk w1 = disk w
       \<and> sent (requests w1 q) = sent (requests w q)
       \<and> sessions w2 old = None \<and> activeByPhone w2 p = Some new
       \<and> d \<in> set (removing w2) \<and> disk w2 d = disk w d
       \<and> sent (requests w2 q) = sent (requests w q)"
  by (simp add: pairBegin_clears postPair_begin_setup pairSetup_registers pairSetup_ok_sessions
      pairSetup_ok_sent pairSetup_ok_removing pairSetup_ok_disk
      clearSession_absent clearSession_phone clearSession_disk clearSession_removing)

lemmas pair_defs = pairUpdate_def pairCode_def pairRest_def requestCode_def sseTo_def pairFailed_def

lemma repaired_reply: "sent (requests repaired 2) = [Reply 200 (PairBody ''s2'' ''ABCD1234'')]"
  by (simp add: repaired_def paired_def flow_defs pair_defs)

lemma repaired_disk: "disk repaired ''auth/s1'' = Some (Dir (Some []))"
  by (simp add: repaired_def paired_def flow_defs pair_defs)

lemma repaired_removing: "removing repaired = [''auth/s1'']"
  by (simp add: repaired_def paired_def flow_defs pair_defs)

text \<open>
  The claim as stated fails: the reply with the new session id has been sent while
  the directory of the superseded session is still on disk.
\<close>

theorem C4_counterexample:
  "activeByPhone paired ''15551234567'' = Some ''s1''
   \<and> authDir (heap paired 0) = Some ''auth/s1''
   \<and> sent (requests repaired 2) = [Reply 200 (PairBody ''s2'' ''ABCD1234'')]
   \<and> disk repaired ''auth/s1'' \<noteq> None"
  by (simp add: paired_phone paired_heap0 repaired_reply repaired_disk)

theorem C4_supersession_before_reply_witness:
  "sessions (snd (pairBegin 2 (Some ''15551234567'') paired)) ''s1'' = None
   \<and> activeByPhone (snd (pairBegin 2 (Some ''15551234567'') paired)) ''15551234567'' = None
   \<and> ''auth/s1'' \<in> set (removing (snd (pairBegin 2 (Some ''15551234567'') paired)))
   \<and> sessions (snd (postPair 2 (Some ''15551234567'') ''s2'' None (SetupOk 8) RmDone paired)) ''s1'' = None
   \<and> activeByPhone (snd (postPair 2 (Some ''15551234567'') ''s2'' None (SetupOk 8) RmDone paired))
        ''15551234567'' = Some ''s2''
   \<and> sent (requests (snd (postPair 2 (Some ''15551234567'') ''s2'' None (SetupOk 8) RmDone paired)) 2) = []"
proof -
  have sent0: "sent (requests paired 2) = []"
    by (simp add: paired_def flow_defs)
  show ?thesis
    using C4_supersession_before_reply [of "''15551234567''" "''s1''" paired 0 "''auth/s1''" "''s2''"
        "snd (pairBegin 2 (Some ''15551234567'') paired)" 2
        "snd (postPair 2 (Some ''15551234567'') ''s2'' None (SetupOk 8) RmDone paired)" 8 RmDone]
    by (simp add: paired_phone paired_s1 paired_heap0 authPath_def sent0)
qed

subsection \<open>Credential Serializer\<close>

lemma obj_put_mem: "(k, v) \<in> set (obj_put f x ob) \<Longrightarrow> (k, v) \<in> set ob \<or> (k = f \<and> v = x)"
  by (induction ob) (auto split: if_splits)

lemma obj_set_mem: "(k, v) \<in> set (obj_set f x ob) \<Longrightarrow> (k, v) \<in> set ob \<or> (k = f \<and> v = x)"
  by (auto simp: obj_set_def dest: obj_put_mem split: if_splits)

lemma fs_readFile_regular:
  "fs_readFile dir f d = Inr c \<Longrightarrow>
     \<exists>es. d dir = Some (Dir (Some es)) \<and> map_of es f = Some (RegFile (Some c))"
  by (auto split: option.splits node.splits sum.splits)

lemma readFiles_sound:
  "readFiles dir d files acc = (err, out) \<Longrightarrow> (k, v) \<in> set out \<Longrightarrow>
     (k, v) \<in> set acc \<or> (\<exists>c. fs_readFile dir k d = Inr c \<and> v = base64 c)"
proof (induction files arbitrary: acc)
  case Nil
  then show ?case by simp
next
  case (Cons f files)
  show ?case
  proof (cases "fs_stat dir f d")
    case (Inl e)
    with Cons.prems show ?thesis by simp
  next
    case (Inr st)
    show ?thesis
    proof (cases "isFile st")
      case False
      with Inr Cons.prems have "readFiles dir d files acc = (err, out)" by simp
      from Cons.IH [OF this Cons.prems(2)] show ?thesis .
    next
      case True
      show ?thesis
      proof (cases "fs_readFile dir f d")
        case (Inl e)
        with Inr True Cons.prems show ?thesis by simp
      next
        case read: (Inr buf)
        with Inr True Cons.prems
        have "readFiles dir d files (obj_set f (base64 buf) acc) = (err, out)" by simp
        from Cons.IH [OF this Cons.prems(2)]
        show ?thesis using read by (auto dest: obj_set_mem)
      qed
    qed
  qed
qed

lemma serializeAuthDir_resolves: "\<exists>out. fst (serializeAuthDir dir w) = Inr out"
  by (simp add: serializeAuthDir_def split: sum.splits prod.splits option.splits)

lemma serializeAuthDir_no_listing:
  "fs_readdir dir (disk w) = Inl e \<Longrightarrow>
     serializeAuthDir dir w = (Inr [], logger Warn ''serializeAuthDir failed'' w)"
  by (simp add: serializeAuthDir_def)

lemma serializeAuthDir_sound:
  assumes "fst (serializeAuthDir dir w) = Inr out" and "(k, v) \<in> set out"
  shows "\<exists>es c. disk w dir = Some (Dir (Some es)) \<and> map_of es k = Some (RegFile (Some c))
           \<and> v = base64 c"
proof (cases "fs_readdir dir (disk w)")
  case (Inl e)
  with assms show ?thesis by (simp add: serializeAuthDir_def)
next
  case (Inr files)
  obtain err out' where run: "readFiles dir (disk w) files [] = (err, out')"
    by (cases "readFiles dir (disk w) files []") auto
  with Inr assms(1) have "out' = out"
    by (simp add: serializeAuthDir_def split: option.splits)
  with run assms(2) readFiles_sound [of dir "disk w" files "[]" err out k v]
  obtain c where "fs_readFile dir k (disk w) = Inr c" and "v = base64 c"
    by auto
  with fs_readFile_regular [of dir k "disk w" c] show ?thesis by auto
qed

text \<open>
  C9. \<open>serializeAuthDir\<close> never rejects. For a directory that is missing or may not be
  listed it resolves with the empty object and logs one warning. Whatever it returns,
  every property is the name of a regular file that is an entry of the directory
  itself, with the base64 text of that file's content: nothing comes from inside a
  subdirectory.
\<close>

theorem C9_serializeAuthDir_tolerant:
  "(\<exists>out. fst (serializeAuthDir dir w) = Inr out)
   \<and> (disk w dir = None \<or> disk w dir = Some (Dir None) \<longrightarrow>
        serializeAuthDir dir w = (Inr [], logger Warn ''serializeAuthDir failed'' w))
   \<and> (fst (serializeAuthDir dir w) = Inr out \<and> (k, v) \<in> set out \<longrightarrow>
        (\<exists>es c. disk w dir = Some (Dir (Some es)) \<and> map_of es k = Some (RegFile (Some c))
           \<and> v = base64 c))"
proof -
  have a: "\<exists>out. fst (serializeAuthDir dir w) = Inr out"
    by (rule serializeAuthDir_resolves)
  have b: "disk w dir = None \<or> disk w dir = Some (Dir None) \<longrightarrow>
        serializeAuthDir dir w = (Inr [], logger Warn ''serializeAuthDir failed'' w)"
    by (auto simp: serializeAuthDir_def)
  have c: "fst (serializeAuthDir dir w) = Inr out \<and> (k, v) \<in> set out \<longrightarrow>
        (\<exists>es c. disk w dir = Some (Dir (Some es)) \<and> map_of es k = Some (RegFile (Some c))
           \<and> v = base64 c)"
    using serializeAuthDir_sound [of dir w out k v] by blast
  from a b c show ?thesis by blast
qed

lemma stored_serialized:
  "serializeAuthDir ''auth/s1'' stored
     = (Inr [(''creds.json'', ''e30=''), (''pre-key-1.json'', ''YWJj'')], stored)"
  by (simp add: serializeAuthDir_def stored_def creds_dir_def world0_def obj_set_def b64_def b64chars_def)

theorem C9_serializeAuthDir_tolerant_witness:
  "serializeAuthDir ''auth/none'' stored = (Inr [], logger Warn ''serializeAuthDir failed'' stored)
   \<and> fst (serializeAuthDir ''auth/s1'' stored)
        = Inr [(''creds.json'', ''e30=''), (''pre-key-1.json'', ''YWJj'')]
   \<and> (\<exists>es c. disk stored ''auth/s1'' = Some (Dir (Some es))
         \<and> map_of es ''pre-key-1.json'' = Some (RegFile (Some c)) \<and> ''YWJj'' = base64 c)"
proof -
  have missing: "disk stored ''auth/none'' = None"
    by (simp add: stored_def world0_def)
  have mem: "(''pre-key-1.json'', ''YWJj'') \<in> set [(''creds.json'', ''e30=''), (''pre-key-1.json'', ''YWJj'')]"
    by simp
  from C9_serializeAuthDir_tolerant [of "''auth/none''" stored] missing
  have first: "serializeAuthDir ''auth/none'' stored = (Inr [], logger Warn ''serializeAuthDir failed'' stored)"
    by blast
  from C9_serializeAuthDir_tolerant [of "''auth/s1''" stored
      "[(''creds.json'', ''e30=''), (''pre-key-1.json'', ''YWJj'')]" "''pre-key-1.json''" "''YWJj''"]
    mem stored_serialized
  have third: "\<exists>es c. disk stored ''auth/s1'' = Some (Dir (Some es))
         \<and> map_of es ''pre-key-1.json'' = Some (RegFile (Some c)) \<and> ''YWJj'' = base64 c"
    by simp
  from first third stored_serialized show ?thesis by simp
qed

subsection \<open>At most one reply\<close>

lemmas qr_defs = qrUpdate_def qrDataUrl_def qrRest_def qrOpened_def qrFailed_def sseTo_def



lemma startIdleTimer_requests [simp]: "requests (startIdleTimer i w) = requests w"
  by (simp add: startIdleTimer_def Let_def split: option.splits)

lemma finishSession_requests [simp]: "requests (finishSession out i reason r w) = requests w"
  by (simp add: finishSession_def Let_def split: option.splits)

lemma idleCallback_requests [simp]: "requests (idleCallback out i w) = requests w"
  by (simp add: idleCallback_def Let_def split: option.splits)

lemma timerFired_requests [simp]: "requests (timerFired t out w) = requests w"
  by (simp add: timerFired_def split: option.splits)

lemma rmSettled_requests [simp]: "requests (rmSettled out d w) = requests w"
  by (simp add: rmSettled_def)

lemma serializeAuthDir_requests [simp]: "requests (snd (serializeAuthDir d w)) = requests w"
  by (simp add: serializeAuthDir_def split: sum.splits prod.splits option.splits)

lemma sseTo_requests [simp]: "requests (sseTo sess ev dat w) = requests w"
  by (simp add: sseTo_def split: option.splits)

lemma onCredsUpdate_requests [simp]: "requests (snd (onCredsUpdate i saved w)) = requests w"
  by (simp add: onCredsUpdate_def Let_def split: sum.splits option.splits)

lemma getEvents_requests [simp]: "requests (getEvents i res w) = requests w"
  by (simp add: getEvents_def attachSSEToSession_def Let_def split: option.splits)

lemma eventsClosed_requests [simp]: "requests (eventsClosed i res w) = requests w"
  by (simp add: eventsClosed_def split: option.splits)

lemma once_cong: "requests w' = requests w \<Longrightarrow> once q w' = once q w"
  by (simp add: once_def)


lemma once_set_resSent [simp]: "once q (set_resSent q' b w) = once q w"
  by (simp add: once_def set_resSent_def)

lemma once_disk [simp]: "once q (w\<lparr>disk := d\<rparr>) = once q w"
  by (simp add: once_def)































subsection \<open>Records made by the event stream\<close>

lemma posted:
  "snd (postQr 1 ''s1'' None (SetupOk 7) RmDone world0)
     = world0\<lparr>sessions := (\<lambda>i. None)(''s1'' \<mapsto> 0),
             heap := (\<lambda>r. empty_session)(0 := \<lparr>authDir = Some ''auth/s1'', socket = Some 7,
                phone = None, sse = None, credsSaved = False, idleTimer = Some 0\<rparr>),
             nextRef := 1, disk := (\<lambda>p. None)(''auth/s1'' \<mapsto> Dir (Some [])),
             timers := (\<lambda>t. None)(0 \<mapsto> ''s1''), nextTimer := 1\<rparr>"
  by (simp add: flow_defs fun_upd_idem)

lemma finished_fields:
  "sessions finished ''s1'' = None"
  "timers finished 1 = Some ''s1''"
  "nextRef finished = 1"
  by (simp_all add: finished_def flow_defs qr_defs quiet_def serializeAuthDir_def
      finalizeSession_def finishSession_def waitCredsSaved.simps maxWait_def pollInterval_def)




lemma kept_fields:
  "sessions w' = sessions w \<Longrightarrow> activeByPhone w' = activeByPhone w \<Longrightarrow> timers w' = timers w
   \<Longrightarrow> kept i r w \<Longrightarrow> kept i r w'"
  by (simp add: kept_def)


lemma kept_dropPhone: "kept i r w \<Longrightarrow> kept i r (dropPhone ph s w)"
  by (auto simp: kept_def dropPhone_def split: option.splits)










lemma res_json_fields [simp]:
  "sessions (snd (res_json q rep w)) = sessions w"
  "activeByPhone (snd (res_json q rep w)) = activeByPhone w"
  "timers (snd (res_json q rep w)) = timers w"
  by (simp_all add: res_json_def)

lemma set_resSent_fields [simp]:
  "sessions (set_resSent q b w) = sessions w"
  "activeByPhone (set_resSent q b w) = activeByPhone w"
  "timers (set_resSent q b w) = timers w"
  by (simp_all add: set_resSent_def)

lemma serializeAuthDir_fields [simp]:
  "sessions (snd (serializeAuthDir d w)) = sessions w"
  "activeByPhone (snd (serializeAuthDir d w)) = activeByPhone w"
  "timers (snd (serializeAuthDir d w)) = timers w"
  by (simp_all add: serializeAuthDir_def split: sum.splits prod.splits option.splits)

lemma sseTo_fields [simp]:
  "sessions (sseTo sess ev dat w) = sessions w"
  "activeByPhone (sseTo sess ev dat w) = activeByPhone w"
  "timers (sseTo sess ev dat w) = timers w"
  by (simp_all add: sseTo_def split: option.splits)







lemma kept_cleanupDir: "kept i r w \<Longrightarrow> kept i r (snd (cleanupDir out d w))"
  by (simp add: kept_def)

lemma kept_qrCatch: "kept i r w \<Longrightarrow> kept i r (qrCatch q d out w)"
  by (simp add: qrCatch_def Let_def kept_def)

lemma kept_pairCatch: "kept i r w \<Longrightarrow> kept i r (pairCatch q d out w)"
  by (simp add: pairCatch_def Let_def kept_def)


















end
